theory Spec2Isabelle
  imports Complex_Main
begin

section \<open>JavaScript values used by the mapper\<close>

text \<open>
  \<^verbatim>\<open>types.ts\<close> declares a spreadsheet row as
  \<^verbatim>\<open>interface ExcelData { [key: string]: string | number }\<close>.
  A row is a partial map from column names to cells; a key that the row does not
  have reads as \<^verbatim>\<open>undefined\<close>, which is \<open>None\<close> here. Strings are
  \<open>string\<close>; numeric cells are modelled at integer values (the decimal rendering
  of a fractional double plays no part in any statement below).
\<close>

datatype cell = Str string | Num int

type_synonym ExcelData = "string \<rightharpoonup> cell"

text \<open>JavaScript truthiness of \<^verbatim>\<open>row[field]\<close>: \<^verbatim>\<open>undefined\<close>,
  the empty string and the number zero are falsy.\<close>

fun truthy :: "cell option \<Rightarrow> bool" where
  "truthy None = False"
| "truthy (Some (Str s)) = (s \<noteq> [])"
| "truthy (Some (Num n)) = (n \<noteq> 0)"

text \<open>Decimal digits of a natural number, most significant first.\<close>

fun nat_digits :: "nat \<Rightarrow> string" where
  "nat_digits n =
     (if n < 10 then [''0123456789'' ! n]
      else nat_digits (n div 10) @ [''0123456789'' ! (n mod 10)])"

declare nat_digits.simps [simp del]

text \<open>\<^verbatim>\<open>String(v)\<close> on a cell: a string is itself, an integer is written in
  decimal with a leading minus sign when negative. This is JavaScript's rendering for
  integers of magnitude below \<^verbatim>\<open>1e21\<close>; larger ones (written with an exponent by
  JavaScript) and fractional cells are outside the model, and no statement below
  depends on the rendering there.\<close>

fun js_String :: "cell \<Rightarrow> string" where
  "js_String (Str s) = s"
| "js_String (Num n) =
     (if n < 0 then CHR ''-'' # nat_digits (nat (- n)) else nat_digits (nat n))"

text \<open>The expression \<^verbatim>\<open>String(row[field] || "")\<close>, used for every stamped
  value and every filename part: a falsy lookup is replaced by the empty string
  before \<^verbatim>\<open>String\<close> is applied.\<close>

definition value_of :: "ExcelData \<Rightarrow> string \<Rightarrow> string" where
  "value_of row fld =
     (if truthy (row fld) then (case row fld of Some c \<Rightarrow> js_String c | None \<Rightarrow> [])
      else [])"

text \<open>\<^verbatim>\<open>Array.prototype.slice(start, end)\<close>: a negative index counts from the
  end, both indices are clamped to the array.\<close>

definition js_slice :: "'a list \<Rightarrow> int \<Rightarrow> int \<Rightarrow> 'a list" where
  "js_slice xs start fin =
     (let len = int (length xs);
          k = (if start < 0 then max (len + start) 0 else min start len);
          final = (if fin < 0 then max (len + fin) 0 else min fin len)
      in take (nat (final - k)) (drop (nat k) xs))"

text \<open>\<^verbatim>\<open>xs[i]\<close>: an index outside the array reads as \<^verbatim>\<open>undefined\<close>.\<close>

definition js_index :: "'a list \<Rightarrow> int \<Rightarrow> 'a option" where
  "js_index xs i = (if 0 \<le> i \<and> i < int (length xs) then Some (xs ! nat i) else None)"

text \<open>\<^verbatim>\<open>Array.prototype.join(sep)\<close> on strings.\<close>

fun js_join :: "string list \<Rightarrow> string \<Rightarrow> string" where
  "js_join [] sep = []"
| "js_join [v] sep = v"
| "js_join (v # w # vs) sep = v @ sep @ js_join (w # vs) sep"

text \<open>\<^verbatim>\<open>name.replace(/\.[^/.]+$/, "")\<close>: the leftmost position where a dot is
  followed, up to the end of the string, by one or more characters that are neither
  a slash nor a dot; the match (the rest of the string) is removed.\<close>

fun strip_extension :: "string \<Rightarrow> string" where
  "strip_extension [] = []"
| "strip_extension (c # cs) =
     (if c = CHR ''.'' \<and> cs \<noteq> [] \<and> list_all (\<lambda>d. d \<noteq> CHR ''/'' \<and> d \<noteq> CHR ''.'') cs
      then [] else c # strip_extension cs)"

text \<open>\<^verbatim>\<open>s.replace(pat, rep)\<close> with a string pattern: the first occurrence only.\<close>

fun replace_first :: "string \<Rightarrow> string \<Rightarrow> string \<Rightarrow> string" where
  "replace_first pat rep [] = (if pat = [] then rep else [])"
| "replace_first pat rep (c # cs) =
     (if take (length pat) (c # cs) = pat then rep @ drop (length pat) (c # cs)
      else c # replace_first pat rep cs)"

text \<open>\<^verbatim>\<open>Math.round\<close>: the nearest integer, a tie going up.\<close>

definition Math_round :: "real \<Rightarrow> real" where
  "Math_round r = of_int \<lfloor>r + 1 / 2\<rfloor>"

section \<open>Data model\<close>

text \<open>\<^verbatim>\<open>interface FieldMapping { x: number; y: number; field: string; page: number }\<close>.
  Coordinates are doubles, read here as real numbers; the page is an integer.\<close>

record FieldMapping =
  mapping_x :: real
  mapping_y :: real
  mapping_field :: string
  mapping_page :: int

text \<open>A browser \<^verbatim>\<open>File\<close>: its name and its bytes.\<close>

type_synonym bytes = string

record jsfile =
  file_name :: string
  file_data :: bytes

text \<open>An embedded font of pdf-lib, as far as the mapper uses it: its name and
  \<^verbatim>\<open>widthOfTextAtSize\<close>.\<close>

record font =
  customName :: string
  widthOfTextAtSize :: "string \<Rightarrow> real \<Rightarrow> real"

text \<open>One \<^verbatim>\<open>page.drawText(text, {x, y, font, size})\<close> call.\<close>

record stamp =
  stamp_text :: string
  stamp_x :: real
  stamp_y :: real
  stamp_font :: font
  stamp_size :: real

text \<open>A page of a pdf-lib document: the content it was loaded with, its height
  (\<^verbatim>\<open>getSize().height\<close>) and the texts drawn on it since, oldest first.\<close>

record page =
  page_content :: bytes
  page_height :: real
  page_texts :: "stamp list"

type_synonym pdfdoc = "page list"

datatype error = Error string

text \<open>The collaborators of the pipeline: the network fetch of the font, the PDF
  decoder and the font embedder. Each returns its result or throws.\<close>

record env =
  fetch :: "string \<Rightarrow> error + bytes"
  PDFDocument_load :: "bytes \<Rightarrow> error + pdfdoc"
  embedFont :: "bytes \<Rightarrow> error + font"

text \<open>What a run does to the outside world, in order. \<open>Download\<close> stands for the
  creation of the blob, the anchor and its click; the saved bytes are identified
  with the document that \<^verbatim>\<open>save()\<close> serialises.\<close>

datatype event =
    Fetch string
  | ArrayBuffer string
  | ConsoleError string "error option"
  | Alert string
  | Download pdfdoc string
  | SetTimeout nat

section \<open>The field mapping registry (App.tsx)\<close>

definition handleAddMapping :: "FieldMapping list \<Rightarrow> FieldMapping \<Rightarrow> FieldMapping list" where
  "handleAddMapping mappings mapping = mappings @ [mapping]"

definition handleRemoveLastMapping :: "FieldMapping list \<Rightarrow> FieldMapping list" where
  "handleRemoveLastMapping mappings = js_slice mappings 0 (- 1)"

section \<open>The batch generation pipeline (project/src/App.tsx)\<close>

text \<open>The component state that \<^verbatim>\<open>generatePDFs\<close> closes over. The first four
  fields are shared by both versions of \<^verbatim>\<open>App.tsx\<close> in the repository.\<close>

record app_common =
  pdfFile :: "jsfile option"
  excelFile :: "jsfile option"
  excelData :: "ExcelData list"
  mappings :: "FieldMapping list"

record app = app_common +
  customFilename :: string
  selectedFilenameFields :: "string list"

definition fontUrl :: string where
  "fontUrl = ''https://fonts.gstatic.com/s/notosansthai/v20/iJWnBXeUZi_OHPqn4wq6hQ2_hbJ1xyN9wd43SofNWcd1MKVQt_So_9CdU5RtpzF-QRvzzXg.ttf''"

text \<open>The guard of line 50:
  \<^verbatim>\<open>if (!pdfFile || !excelData.length || !mappings.length) return;\<close>\<close>

definition guard_returns :: "'a app_common_scheme \<Rightarrow> bool" where
  "guard_returns st = (pdfFile st = None \<or> length (excelData st) = 0 \<or> length (mappings st) = 0)"

text \<open>The \<^verbatim>\<open>catch\<close> block of \<^verbatim>\<open>generatePDFs\<close>.\<close>

definition catch_block :: "error \<Rightarrow> event list" where
  "catch_block e =
     [ConsoleError ''Error generating PDFs:'' (Some e),
      Alert ''Error generating PDFs. Please check the console for details.'']"

text \<open>The fresh document of one row:
  \<^verbatim>\<open>Array.from({ length: pdfDoc.getPageCount() }, (_, i) => i)\<close>,
  \<^verbatim>\<open>copyPages\<close> and one \<^verbatim>\<open>addPage\<close> per copied page.\<close>

definition pageIndices :: "pdfdoc \<Rightarrow> nat list" where
  "pageIndices pdfDoc = [0 ..< length pdfDoc]"

definition copyPages :: "pdfdoc \<Rightarrow> nat list \<Rightarrow> page list" where
  "copyPages pdfDoc indices = map (\<lambda>i. pdfDoc ! i) indices"

definition addPage :: "pdfdoc \<Rightarrow> page \<Rightarrow> pdfdoc" where
  "addPage newPdf p = newPdf @ [p]"

definition newPdf_pages :: "pdfdoc \<Rightarrow> page list" where
  "newPdf_pages pdfDoc = foldl addPage [] (copyPages pdfDoc (pageIndices pdfDoc))"

definition drawText :: "page \<Rightarrow> stamp \<Rightarrow> page" where
  "drawText p s = p\<lparr>page_texts := page_texts p @ [s]\<rparr>"

text \<open>The callback of \<^verbatim>\<open>mappings.map(async (mapping) => ...)\<close>, lines 88 to 106.
  \<^verbatim>\<open>drawText\<close> is synchronous, so each callback has drawn before the next one
  starts: the callbacks act on the pages and on the console in the order of
  \<^verbatim>\<open>mappings\<close>.\<close>

definition drawMapping ::
  "font \<Rightarrow> ExcelData \<Rightarrow> FieldMapping \<Rightarrow> page list \<times> event list \<Rightarrow> page list \<times> event list" where
  "drawMapping customFont row mapping s =
     (case s of (pages, lg) \<Rightarrow>
       (case js_index pages (mapping_page mapping - 1) of
          None \<Rightarrow>
            (pages,
             lg @ [ConsoleError (''Page '' @ js_String (Num (mapping_page mapping)) @ '' not found'') None])
        | Some p \<Rightarrow>
            (let height = page_height p;
                 v = value_of row (mapping_field mapping);
                 textWidth = widthOfTextAtSize customFont v 10
             in (pages[nat (mapping_page mapping - 1) :=
                   drawText p \<lparr>stamp_text = v,
                               stamp_x = mapping_x mapping - textWidth / 2,
                               stamp_y = height - mapping_y mapping - 5,
                               stamp_font = customFont,
                               stamp_size = 10\<rparr>],
                 lg))))"

text \<open>Lines 112 to 124: the base name, the filename parts of one row and the
  filename.\<close>

definition baseFilename :: "app \<Rightarrow> string" where
  "baseFilename st =
     (if customFilename st \<noteq> [] then customFilename st
      else (case excelFile st of
              None \<Rightarrow> []
            | Some f \<Rightarrow>
                (if strip_extension (file_name f) \<noteq> [] then strip_extension (file_name f)
                 else [])))"

definition fieldValues :: "app \<Rightarrow> ExcelData \<Rightarrow> string list" where
  "fieldValues st row =
     filter (\<lambda>s. s \<noteq> []) (map (\<lambda>fld. value_of row fld) (selectedFilenameFields st))"

definition newFilename :: "string \<Rightarrow> string list \<Rightarrow> string" where
  "newFilename base vals =
     (if length vals > 0 then base @ ''-'' @ js_join vals ''-'' @ ''.pdf''
      else base @ ''.pdf'')"

text \<open>The body of \<^verbatim>\<open>for (const row of excelData)\<close>: the console output of the
  row, and the entry pushed to \<^verbatim>\<open>pdfsToDownload\<close> or the exception thrown.\<close>

definition processRow ::
  "env \<Rightarrow> app \<Rightarrow> bytes \<Rightarrow> pdfdoc \<Rightarrow> ExcelData \<Rightarrow> event list \<times> (error + pdfdoc \<times> string)" where
  "processRow e st fontBytes pdfDoc row =
     (let newPdf = newPdf_pages pdfDoc in
      case embedFont e fontBytes of
        Inl err \<Rightarrow> ([], Inl err)
      | Inr customFont \<Rightarrow>
          (case fold (drawMapping customFont row) (mappings st) (newPdf, []) of
             (pages, lg) \<Rightarrow>
               (lg, Inr (pages, newFilename (baseFilename st) (fieldValues st row)))))"

fun forRows ::
  "env \<Rightarrow> app \<Rightarrow> bytes \<Rightarrow> pdfdoc \<Rightarrow> ExcelData list \<Rightarrow> (pdfdoc \<times> string) list \<Rightarrow> event list
   \<Rightarrow> event list \<times> (error + (pdfdoc \<times> string) list)" where
  "forRows e st fontBytes pdfDoc [] pdfsToDownload lg = (lg, Inr pdfsToDownload)"
| "forRows e st fontBytes pdfDoc (row # rows) pdfsToDownload lg =
     (case processRow e st fontBytes pdfDoc row of
        (l, Inl err) \<Rightarrow> (lg @ l, Inl err)
      | (l, Inr item) \<Rightarrow> forRows e st fontBytes pdfDoc rows (pdfsToDownload @ [item]) (lg @ l))"

text \<open>The download loop of lines 133 to 147: one download per entry, with a delay
  of 500 ms after every entry but the last.\<close>

fun downloadAll :: "(pdfdoc \<times> string) list \<Rightarrow> event list" where
  "downloadAll [] = []"
| "downloadAll [d] = [Download (fst d) (snd d)]"
| "downloadAll (d # d' # ds) = Download (fst d) (snd d) # SetTimeout 500 # downloadAll (d' # ds)"

definition generatePDFs :: "env \<Rightarrow> app \<Rightarrow> event list" where
  "generatePDFs e st =
     (if guard_returns st then []
      else
        Fetch fontUrl #
        (case fetch e fontUrl of
           Inl err \<Rightarrow> catch_block err
         | Inr fontBytes \<Rightarrow>
             (case pdfFile st of
                None \<Rightarrow> []
              | Some f \<Rightarrow>
                  ArrayBuffer (file_name f) #
                  (case PDFDocument_load e (file_data f) of
                     Inl err \<Rightarrow> catch_block err
                   | Inr pdfDoc \<Rightarrow>
                       (case forRows e st fontBytes pdfDoc (excelData st) [] [] of
                          (lg, Inl err) \<Rightarrow> lg @ catch_block err
                        | (lg, Inr pdfsToDownload) \<Rightarrow> lg @ downloadAll pdfsToDownload)))))"

section \<open>The other version of the pipeline (src/unnamed/part_000)\<close>

text \<open>The second \<^verbatim>\<open>App.tsx\<close> of the repository keeps one filename field, draws
  left-aligned, runs the per-mapping drawing in a \<^verbatim>\<open>forEach\<close> and again in a
  \<^verbatim>\<open>Promise.all\<close>, and downloads each document inside the row loop.\<close>

record app_part000 = app_common +
  filenameField :: string

text \<open>Lines 79 to 98, the \<^verbatim>\<open>forEach\<close> callback.\<close>

definition drawMapping_forEach ::
  "font \<Rightarrow> ExcelData \<Rightarrow> FieldMapping \<Rightarrow> page list \<times> event list \<Rightarrow> page list \<times> event list" where
  "drawMapping_forEach customFont row mapping s =
     (case s of (pages, lg) \<Rightarrow>
       (case js_index pages (mapping_page mapping - 1) of
          None \<Rightarrow>
            (pages,
             lg @ [ConsoleError (''Page '' @ js_String (Num (mapping_page mapping)) @ '' not found'') None])
        | Some p \<Rightarrow>
            (let height = page_height p;
                 v = value_of row (mapping_field mapping)
             in (pages[nat (mapping_page mapping - 1) :=
                   drawText p \<lparr>stamp_text = v,
                               stamp_x = mapping_x mapping,
                               stamp_y = height - mapping_y mapping - 5,
                               stamp_font = customFont,
                               stamp_size = 10\<rparr>],
                 lg))))"

text \<open>Lines 102 to 114, the \<^verbatim>\<open>Promise.all\<close> callback: the same drawing, a
  missing page is skipped silently.\<close>

definition drawMapping_awaited ::
  "font \<Rightarrow> ExcelData \<Rightarrow> FieldMapping \<Rightarrow> page list \<Rightarrow> page list" where
  "drawMapping_awaited customFont row mapping pages =
     (case js_index pages (mapping_page mapping - 1) of
        None \<Rightarrow> pages
      | Some p \<Rightarrow>
          (let height = page_height p;
               v = value_of row (mapping_field mapping)
           in pages[nat (mapping_page mapping - 1) :=
                drawText p \<lparr>stamp_text = v,
                            stamp_x = mapping_x mapping,
                            stamp_y = height - mapping_y mapping - 5,
                            stamp_font = customFont,
                            stamp_size = 10\<rparr>]))"

text \<open>Lines 123 to 128: \<^verbatim>\<open>pdfFile.name.replace(".pdf", "")\<close>, the value of the
  filename field and the filename.\<close>

definition newFilename_part000 :: "jsfile \<Rightarrow> app_part000 \<Rightarrow> ExcelData \<Rightarrow> string" where
  "newFilename_part000 f st row =
     (let originalName = replace_first ''.pdf'' [] (file_name f);
          fieldValue = value_of row (filenameField st)
      in originalName @ ''-'' @ fieldValue @ ''.pdf'')"

definition processRow_part000 ::
  "env \<Rightarrow> jsfile \<Rightarrow> app_part000 \<Rightarrow> bytes \<Rightarrow> pdfdoc \<Rightarrow> ExcelData \<Rightarrow> event list \<times> error option" where
  "processRow_part000 e f st fontBytes pdfDoc row =
     (let newPdf = newPdf_pages pdfDoc in
      case embedFont e fontBytes of
        Inl err \<Rightarrow> ([], Some err)
      | Inr customFont \<Rightarrow>
          (case fold (drawMapping_forEach customFont row) (mappings st) (newPdf, []) of
             (pages, lg) \<Rightarrow>
               (let pages' = fold (drawMapping_awaited customFont row) (mappings st) pages
                in (lg @ [Download pages' (newFilename_part000 f st row)], None))))"

fun forRows_part000 ::
  "env \<Rightarrow> jsfile \<Rightarrow> app_part000 \<Rightarrow> bytes \<Rightarrow> pdfdoc \<Rightarrow> ExcelData list \<Rightarrow> event list
   \<Rightarrow> event list \<times> error option" where
  "forRows_part000 e f st fontBytes pdfDoc [] lg = (lg, None)"
| "forRows_part000 e f st fontBytes pdfDoc (row # rows) lg =
     (case processRow_part000 e f st fontBytes pdfDoc row of
        (l, Some err) \<Rightarrow> (lg @ l, Some err)
      | (l, None) \<Rightarrow> forRows_part000 e f st fontBytes pdfDoc rows (lg @ l))"

definition generatePDFs_part000 :: "env \<Rightarrow> app_part000 \<Rightarrow> event list" where
  "generatePDFs_part000 e st =
     (if guard_returns st then []
      else
        Fetch fontUrl #
        (case fetch e fontUrl of
           Inl err \<Rightarrow> catch_block err
         | Inr fontBytes \<Rightarrow>
             (case pdfFile st of
                None \<Rightarrow> []
              | Some f \<Rightarrow>
                  ArrayBuffer (file_name f) #
                  (case PDFDocument_load e (file_data f) of
                     Inl err \<Rightarrow> catch_block err
                   | Inr pdfDoc \<Rightarrow>
                       (case forRows_part000 e f st fontBytes pdfDoc (excelData st) [] of
                          (lg, Some err) \<Rightarrow> lg @ catch_block err
                        | (lg, None) \<Rightarrow> lg)))))"

section \<open>The coordinate mapper (PDFViewer.tsx)\<close>

text \<open>The viewer state read by \<^verbatim>\<open>handleCanvasClick\<close> and by the overlay. The
  component fixes \<^verbatim>\<open>scale\<close> at 1.5; it is a field here so that the statements
  hold for every positive scale.\<close>

record viewer =
  scale :: real
  selectedField :: string
  currentPage :: int

text \<open>\<^verbatim>\<open>handleCanvasClick\<close>, lines 77 to 91. The arguments \<open>px\<close> and \<open>py\<close> are
  the pointer offsets \<^verbatim>\<open>e.clientX - rect.left\<close> and \<^verbatim>\<open>e.clientY - rect.top\<close>.
  The result is the alert shown or the mapping handed to \<^verbatim>\<open>onAddMapping\<close>.\<close>

definition handleCanvasClick :: "viewer \<Rightarrow> real \<Rightarrow> real \<Rightarrow> string + FieldMapping" where
  "handleCanvasClick v px py =
     (if selectedField v = [] then Inl ''Please select a field first''
      else Inr \<lparr>mapping_x = Math_round (px / scale v),
                mapping_y = Math_round (py / scale v),
                mapping_field = selectedField v,
                mapping_page = currentPage v\<rparr>)"

text \<open>The overlay of lines 156 to 175: the markers of the current page, each at
  \<^verbatim>\<open>left: mapping.x * scale, top: mapping.y * scale\<close>.\<close>

definition overlay :: "viewer \<Rightarrow> FieldMapping list \<Rightarrow> (real \<times> real) list" where
  "overlay v ms =
     map (\<lambda>m. (mapping_x m * scale v, mapping_y m * scale v))
       (filter (\<lambda>m. mapping_page m = currentPage v) ms)"

section \<open>Auxiliary notions used in the statements\<close>

text \<open>The downloads of a run, in the order they happen.\<close>

fun downloads :: "event list \<Rightarrow> (pdfdoc \<times> string) list" where
  "downloads [] = []"
| "downloads (Download d n # es) = (d, n) # downloads es"
| "downloads (_ # es) = downloads es"

text \<open>The page that a mapping addresses by its 1-based index exists in the document.\<close>

definition page_exists :: "pdfdoc \<Rightarrow> FieldMapping \<Rightarrow> bool" where
  "page_exists doc m = (1 \<le> mapping_page m \<and> mapping_page m \<le> int (length doc))"

text \<open>The mappings of the page with 0-based index \<open>i\<close>, in the order of the registry.\<close>

definition on_page :: "nat \<Rightarrow> FieldMapping list \<Rightarrow> FieldMapping list" where
  "on_page i ms = filter (\<lambda>m. mapping_page m = int i + 1) ms"

text \<open>The text drawn for a mapping on a page of height \<open>h\<close>, centred on the stored x:
  the value of the mapping's field in the row, at size 10, its x moved left by half the
  width the embedded font gives the text, its y flipped against the page height with
  the offset 5.\<close>

definition centered_stamp :: "font \<Rightarrow> ExcelData \<Rightarrow> real \<Rightarrow> FieldMapping \<Rightarrow> stamp" where
  "centered_stamp fnt row h m =
     \<lparr>stamp_text = value_of row (mapping_field m),
      stamp_x = mapping_x m - widthOfTextAtSize fnt (value_of row (mapping_field m)) 10 / 2,
      stamp_y = h - mapping_y m - 5,
      stamp_font = fnt,
      stamp_size = 10\<rparr>"

text \<open>The same stamp, left-aligned at the stored x.\<close>

definition left_stamp :: "font \<Rightarrow> ExcelData \<Rightarrow> real \<Rightarrow> FieldMapping \<Rightarrow> stamp" where
  "left_stamp fnt row h m =
     \<lparr>stamp_text = value_of row (mapping_field m),
      stamp_x = mapping_x m,
      stamp_y = h - mapping_y m - 5,
      stamp_font = fnt,
      stamp_size = 10\<rparr>"

text \<open>A document with the stamps of its mappings appended: every page keeps its content,
  its height and the texts it had, followed by one stamp (made by \<open>mk\<close>) per mapping
  of that page, in the order of the registry.\<close>

definition stamped_doc :: "(real \<Rightarrow> FieldMapping \<Rightarrow> stamp) \<Rightarrow> FieldMapping list \<Rightarrow> pdfdoc \<Rightarrow> pdfdoc" where
  "stamped_doc mk ms doc =
     map (\<lambda>i. (doc ! i)\<lparr>page_texts :=
                  page_texts (doc ! i) @ map (mk (page_height (doc ! i))) (on_page i ms)\<rparr>)
       [0 ..< length doc]"

text \<open>The console output for the mappings whose page does not exist, in the order of the
  registry.\<close>

definition missing_pages :: "FieldMapping list \<Rightarrow> pdfdoc \<Rightarrow> event list" where
  "missing_pages ms doc =
     map (\<lambda>m. ConsoleError (''Page '' @ js_String (Num (mapping_page m)) @ '' not found'') None)
       (filter (\<lambda>m. \<not> page_exists doc m) ms)"

text \<open>The entry of one row in project/src/App.tsx: the template with every mapping of an
  existing page stamped once, centred, and the filename of the row.\<close>

definition row_output :: "font \<Rightarrow> app \<Rightarrow> pdfdoc \<Rightarrow> ExcelData \<Rightarrow> pdfdoc \<times> string" where
  "row_output fnt st doc row =
     (stamped_doc (centered_stamp fnt row) (mappings st) doc,
      newFilename (baseFilename st) (fieldValues st row))"

text \<open>The entry of one row in src/unnamed/part_000: the template stamped left-aligned by
  the \<^verbatim>\<open>forEach\<close> and stamped again by the \<^verbatim>\<open>Promise.all\<close>.\<close>

definition row_output_part000 ::
  "font \<Rightarrow> jsfile \<Rightarrow> app_part000 \<Rightarrow> pdfdoc \<Rightarrow> ExcelData \<Rightarrow> pdfdoc \<times> string" where
  "row_output_part000 fnt f st doc row =
     (stamped_doc (left_stamp fnt row) (mappings st)
        (stamped_doc (left_stamp fnt row) (mappings st) doc),
      newFilename_part000 f st row)"

section \<open>Concrete inputs\<close>

text \<open>The inputs used to instantiate the statements: a two-page template of
  height 800, a font whose text width is half the size per character, a row
  \<^verbatim>\<open>{Name: "Somchai", Amount: 500}\<close>, a mapping of \<^verbatim>\<open>Amount\<close> on page 1 and
  a mapping on the missing page 3.\<close>

definition ex_font :: font where
  "ex_font = \<lparr>customName = ''NotoSansThai'', widthOfTextAtSize = (\<lambda>s sz. real (length s) * sz / 2)\<rparr>"

definition ex_page :: page where
  "ex_page = \<lparr>page_content = ''page'', page_height = 800, page_texts = []\<rparr>"

definition ex_template :: pdfdoc where
  "ex_template = [ex_page, ex_page]"

definition ex_env :: env where
  "ex_env = \<lparr>fetch = (\<lambda>u. Inr ''ttf''), PDFDocument_load = (\<lambda>b. Inr ex_template),
             embedFont = (\<lambda>b. Inr ex_font)\<rparr>"

definition ex_env_offline :: env where
  "ex_env_offline = ex_env\<lparr>fetch := (\<lambda>u. Inl (Error ''Failed to fetch''))\<rparr>"

definition ex_pdf :: jsfile where
  "ex_pdf = \<lparr>file_name = ''template.pdf'', file_data = ''%PDF''\<rparr>"

definition ex_xlsx :: jsfile where
  "ex_xlsx = \<lparr>file_name = ''people.xlsx'', file_data = ''PK''\<rparr>"

definition ex_row :: ExcelData where
  "ex_row = [''Name'' \<mapsto> Str ''Somchai'', ''Amount'' \<mapsto> Num 500]"

definition ex_mapping :: FieldMapping where
  "ex_mapping = \<lparr>mapping_x = 100, mapping_y = 50, mapping_field = ''Amount'', mapping_page = 1\<rparr>"

definition ex_mapping_p3 :: FieldMapping where
  "ex_mapping_p3 = \<lparr>mapping_x = 10, mapping_y = 10, mapping_field = ''Name'', mapping_page = 3\<rparr>"

definition ex_app :: app where
  "ex_app = \<lparr>pdfFile = Some ex_pdf, excelFile = Some ex_xlsx, excelData = [ex_row],
             mappings = [ex_mapping], customFilename = ''invoice'',
             selectedFilenameFields = [''Name'']\<rparr>"

definition ex_app_part000 :: app_part000 where
  "ex_app_part000 = \<lparr>pdfFile = Some ex_pdf, excelFile = Some ex_xlsx, excelData = [ex_row],
             mappings = [ex_mapping], filenameField = ''Name''\<rparr>"

definition ex_env_bad_template :: env where
  "ex_env_bad_template = ex_env\<lparr>PDFDocument_load := (\<lambda>b. Inl (Error ''No PDF header found''))\<rparr>"

definition ex_app_p3 :: app where
  "ex_app_p3 = ex_app\<lparr>mappings := [ex_mapping_p3, ex_mapping]\<rparr>"

definition ex_row_no_name :: ExcelData where
  "ex_row_no_name = [''Amount'' \<mapsto> Num 20]"

definition ex_row_zero :: ExcelData where
  "ex_row_zero = [''Name'' \<mapsto> Str ''Malee'', ''Amount'' \<mapsto> Num 0]"

definition ex_rows_part000 :: app_part000 where
  "ex_rows_part000 = ex_app_part000\<lparr>excelData := [ex_row, ex_row_no_name]\<rparr>"

definition ex_app_zero :: app where
  "ex_app_zero = ex_app\<lparr>excelData := [ex_row_zero]\<rparr>"

definition ex_viewer :: viewer where
  "ex_viewer = \<lparr>scale = 3 / 2, selectedField = ''Name'', currentPage = 1\<rparr>"

text \<open>A second row, \<^verbatim>\<open>{Name: "Malee", Amount: 20}\<close>, and the two states with
  both rows in source order.\<close>

definition ex_row_malee :: ExcelData where
  "ex_row_malee = [''Name'' \<mapsto> Str ''Malee'', ''Amount'' \<mapsto> Num 20]"

definition ex_app_two :: app where
  "ex_app_two = ex_app\<lparr>excelData := [ex_row, ex_row_malee]\<rparr>"

definition ex_app_two_part000 :: app_part000 where
  "ex_app_two_part000 = ex_app_part000\<lparr>excelData := [ex_row, ex_row_malee]\<rparr>"

section \<open>Properties of the helpers and of the row loop\<close>

subsection \<open>Values, digits and the registry\<close>

text \<open>What \<^verbatim>\<open>String(row[field] || "")\<close> yields, and \<^verbatim>\<open>slice(0, -1)\<close> as \<open>butlast\<close>.\<close>

lemma value_of_truthy: "truthy (row fld) \<Longrightarrow> row fld = Some c \<Longrightarrow> value_of row fld = js_String c"
  by (simp add: value_of_def)

lemma value_of_absent: "row fld = None \<Longrightarrow> value_of row fld = []"
  by (simp add: value_of_def)

lemma value_of_falsy: "\<not> truthy (row fld) \<Longrightarrow> value_of row fld = []"
  by (simp add: value_of_def)

lemma nat_digits_examples:
  "nat_digits 0 = ''0''" "nat_digits 3 = ''3''" "nat_digits 500 = ''500''"
  by (simp_all add: nat_digits.simps)

lemma js_slice_butlast: "js_slice xs 0 (- 1) = butlast xs"
  by (cases "xs = []") (simp_all add: js_slice_def Let_def butlast_conv_take nat_diff_distrib max_def)

subsection \<open>The fresh document and the drawing of the mappings\<close>

text \<open>The copy of the template is the template; folding the per-mapping callback over the
  registry yields \<open>stamped_doc\<close> and the console lines of the missing pages.\<close>

lemma foldl_addPage: "foldl addPage acc ps = acc @ ps"
  by (induction ps arbitrary: acc) (simp_all add: addPage_def)

lemma newPdf_pages_eq: "newPdf_pages pdfDoc = pdfDoc"
  by (simp add: newPdf_pages_def copyPages_def pageIndices_def foldl_addPage map_nth)

lemma js_index_exists:
  "js_index doc (mapping_page m - 1) =
     (if page_exists doc m then Some (doc ! nat (mapping_page m - 1)) else None)"
  by (auto simp: js_index_def page_exists_def)

lemma length_stamped_doc [simp]: "length (stamped_doc mk ms doc) = length doc"
  by (simp add: stamped_doc_def)

lemma stamped_doc_Nil [simp]: "stamped_doc mk [] doc = doc"
  by (rule nth_equalityI) (simp_all add: stamped_doc_def on_page_def)

lemma stamped_doc_nth:
  "i < length doc \<Longrightarrow>
   stamped_doc mk ms doc ! i =
     (doc ! i)\<lparr>page_texts := page_texts (doc ! i) @ map (mk (page_height (doc ! i))) (on_page i ms)\<rparr>"
  by (simp add: stamped_doc_def)

lemma stamped_doc_Cons_missing:
  "\<not> page_exists doc m \<Longrightarrow> stamped_doc mk (m # ms) doc = stamped_doc mk ms doc"
  by (auto simp: stamped_doc_def on_page_def page_exists_def)

lemma stamped_doc_Cons_exists:
  assumes "page_exists doc m"
  shows "stamped_doc mk (m # ms) doc =
         stamped_doc mk ms
           (doc[nat (mapping_page m - 1) :=
              drawText (doc ! nat (mapping_page m - 1))
                (mk (page_height (doc ! nat (mapping_page m - 1))) m)])"
proof (rule nth_equalityI)
  show "length (stamped_doc mk (m # ms) doc) = length (stamped_doc mk ms
           (doc[nat (mapping_page m - 1) :=
              drawText (doc ! nat (mapping_page m - 1))
                (mk (page_height (doc ! nat (mapping_page m - 1))) m)]))"
    by simp
next
  fix i assume "i < length (stamped_doc mk (m # ms) doc)"
  then have i: "i < length doc" by simp
  let ?k = "nat (mapping_page m - 1)"
  from assms have k: "?k < length doc" "mapping_page m = int ?k + 1"
    by (auto simp: page_exists_def)
  show "stamped_doc mk (m # ms) doc ! i = stamped_doc mk ms
           (doc[?k := drawText (doc ! ?k) (mk (page_height (doc ! ?k)) m)]) ! i"
  proof (cases "i = ?k")
    case True
    with i k show ?thesis
      by (simp add: stamped_doc_def on_page_def drawText_def)
  next
    case False
    then have "mapping_page m \<noteq> int i + 1" using k by linarith
    with i False show ?thesis
      by (simp add: stamped_doc_def on_page_def)
  qed
qed

lemma page_exists_update [simp]: "page_exists (doc[k := p]) m = page_exists doc m"
  by (simp add: page_exists_def)

lemma missing_pages_update [simp]: "missing_pages ms (doc[k := p]) = missing_pages ms doc"
  by (simp add: missing_pages_def)

lemma on_page_filter_exists:
  "i < length doc \<Longrightarrow> on_page i (filter (page_exists doc) ms) = on_page i ms"
  unfolding on_page_def filter_filter
  by (rule filter_cong) (auto simp: page_exists_def)

lemma stamped_doc_valid_only:
  "stamped_doc mk (filter (page_exists doc) ms) doc = stamped_doc mk ms doc"
  by (rule nth_equalityI) (simp_all add: stamped_doc_def on_page_filter_exists)

lemma stamped_doc_keeps_pages:
  "map page_content (stamped_doc mk ms doc) = map page_content doc \<and>
   map page_height (stamped_doc mk ms doc) = map page_height doc"
  by (rule conjI; rule nth_equalityI) (simp_all add: stamped_doc_def)

lemma drawMapping_exists:
  "page_exists pages m \<Longrightarrow>
   drawMapping fnt row m (pages, lg) =
     (pages[nat (mapping_page m - 1) :=
        drawText (pages ! nat (mapping_page m - 1))
          (centered_stamp fnt row (page_height (pages ! nat (mapping_page m - 1))) m)], lg)"
  by (simp add: drawMapping_def js_index_exists centered_stamp_def Let_def)

lemma drawMapping_missing:
  "\<not> page_exists pages m \<Longrightarrow>
   drawMapping fnt row m (pages, lg) =
     (pages, lg @ [ConsoleError (''Page '' @ js_String (Num (mapping_page m)) @ '' not found'') None])"
  by (simp add: drawMapping_def js_index_exists)

lemma fold_drawMapping:
  "fold (drawMapping fnt row) ms (pages, lg) =
     (stamped_doc (centered_stamp fnt row) ms pages, lg @ missing_pages ms pages)"
proof (induction ms arbitrary: pages lg)
  case Nil
  show ?case by (simp add: missing_pages_def)
next
  case (Cons m ms)
  show ?case
  proof (cases "page_exists pages m")
    case True
    then show ?thesis
      by (simp add: drawMapping_exists Cons.IH stamped_doc_Cons_exists missing_pages_def)
  next
    case False
    then show ?thesis
      by (simp add: drawMapping_missing Cons.IH stamped_doc_Cons_missing missing_pages_def)
  qed
qed

lemma drawMapping_forEach_exists:
  "page_exists pages m \<Longrightarrow>
   drawMapping_forEach fnt row m (pages, lg) =
     (pages[nat (mapping_page m - 1) :=
        drawText (pages ! nat (mapping_page m - 1))
          (left_stamp fnt row (page_height (pages ! nat (mapping_page m - 1))) m)], lg)"
  by (simp add: drawMapping_forEach_def js_index_exists left_stamp_def Let_def)

lemma drawMapping_forEach_missing:
  "\<not> page_exists pages m \<Longrightarrow>
   drawMapping_forEach fnt row m (pages, lg) =
     (pages, lg @ [ConsoleError (''Page '' @ js_String (Num (mapping_page m)) @ '' not found'') None])"
  by (simp add: drawMapping_forEach_def js_index_exists)

lemma drawMapping_awaited_exists:
  "page_exists pages m \<Longrightarrow>
   drawMapping_awaited fnt row m pages =
     pages[nat (mapping_page m - 1) :=
        drawText (pages ! nat (mapping_page m - 1))
          (left_stamp fnt row (page_height (pages ! nat (mapping_page m - 1))) m)]"
  by (simp add: drawMapping_awaited_def js_index_exists left_stamp_def Let_def)

lemma drawMapping_awaited_missing:
  "\<not> page_exists pages m \<Longrightarrow> drawMapping_awaited fnt row m pages = pages"
  by (simp add: drawMapping_awaited_def js_index_exists)

lemma fold_drawMapping_forEach:
  "fold (drawMapping_forEach fnt row) ms (pages, lg) =
     (stamped_doc (left_stamp fnt row) ms pages, lg @ missing_pages ms pages)"
proof (induction ms arbitrary: pages lg)
  case Nil
  show ?case by (simp add: missing_pages_def)
next
  case (Cons m ms)
  show ?case
  proof (cases "page_exists pages m")
    case True
    then show ?thesis
      by (simp add: drawMapping_forEach_exists Cons.IH stamped_doc_Cons_exists missing_pages_def)
  next
    case False
    then show ?thesis
      by (simp add: drawMapping_forEach_missing Cons.IH stamped_doc_Cons_missing missing_pages_def)
  qed
qed

lemma fold_drawMapping_awaited:
  "fold (drawMapping_awaited fnt row) ms pages = stamped_doc (left_stamp fnt row) ms pages"
proof (induction ms arbitrary: pages)
  case Nil
  show ?case by simp
next
  case (Cons m ms)
  show ?case
  proof (cases "page_exists pages m")
    case True
    then show ?thesis
      by (simp add: drawMapping_awaited_exists Cons.IH stamped_doc_Cons_exists)
  next
    case False
    then show ?thesis
      by (simp add: drawMapping_awaited_missing Cons.IH stamped_doc_Cons_missing)
  qed
qed

subsection \<open>Traces\<close>

text \<open>Downloads, alerts and console lines of the pieces a trace is made of.\<close>

lemma downloads_append: "downloads (xs @ ys) = downloads xs @ downloads ys"
  by (induction xs rule: downloads.induct) simp_all

lemma downloads_downloadAll: "downloads (downloadAll ds) = ds"
  by (induction ds rule: downloadAll.induct) simp_all

lemma downloads_missing_pages: "downloads (missing_pages ms doc) = []"
  by (induction ms) (simp_all add: missing_pages_def)

lemma downloads_catch_block: "downloads (catch_block err) = []"
  by (simp add: catch_block_def)

lemma downloads_concat_missing:
  "downloads (concat (map (\<lambda>row. missing_pages ms doc) rows)) = []"
  by (induction rows) (simp_all add: downloads_append downloads_missing_pages)

lemma alert_notin_missing_pages: "Alert s \<notin> set (missing_pages ms doc)"
  by (auto simp: missing_pages_def)

lemma alert_notin_downloadAll: "Alert s \<notin> set (downloadAll ds)"
  by (induction ds rule: downloadAll.induct) simp_all

lemma alert_notin_concat_missing:
  "Alert s \<notin> set (concat (map (\<lambda>row. missing_pages ms doc) rows))"
  by (auto simp: alert_notin_missing_pages)

lemma count_list_append: "count_list (xs @ ys) a = count_list xs a + count_list ys a"
  by (induction xs) simp_all

lemma count_missing_pages:
  "m \<in> set ms \<Longrightarrow> \<not> page_exists doc m \<Longrightarrow>
   1 \<le> count_list (missing_pages ms doc)
         (ConsoleError (''Page '' @ js_String (Num (mapping_page m)) @ '' not found'') None)"
  by (induction ms) (auto simp: missing_pages_def)

lemma count_concat_missing:
  "m \<in> set ms \<Longrightarrow> \<not> page_exists doc m \<Longrightarrow>
   length rows \<le> count_list (concat (map (\<lambda>row. missing_pages ms doc) rows))
         (ConsoleError (''Page '' @ js_String (Num (mapping_page m)) @ '' not found'') None)"
proof (induction rows)
  case Nil
  show ?case by simp
next
  case (Cons row rows)
  from count_missing_pages [OF Cons.prems] Cons.IH [OF Cons.prems]
  show ?case by (simp add: count_list_append)
qed

lemma last_catch_block:
  "last (xs @ catch_block err) = Alert ''Error generating PDFs. Please check the console for details.''"
  by (simp add: catch_block_def)

subsection \<open>Runs of project/src/App.tsx\<close>

text \<open>The trace of a run, by the place where it throws or does not.\<close>

lemma processRow_ok:
  "embedFont e fb = Inr fnt \<Longrightarrow>
   processRow e st fb doc row = (missing_pages (mappings st) doc, Inr (row_output fnt st doc row))"
  by (simp add: processRow_def newPdf_pages_eq fold_drawMapping row_output_def)

lemma processRow_throws:
  "embedFont e fb = Inl err \<Longrightarrow> processRow e st fb doc row = ([], Inl err)"
  by (simp add: processRow_def)

lemma forRows_ok:
  "embedFont e fb = Inr fnt \<Longrightarrow>
   forRows e st fb doc rows pdfs lg =
     (lg @ concat (map (\<lambda>row. missing_pages (mappings st) doc) rows),
      Inr (pdfs @ map (row_output fnt st doc) rows))"
  by (induction rows arbitrary: pdfs lg) (simp_all add: processRow_ok)

lemma forRows_throws:
  "embedFont e fb = Inl err \<Longrightarrow>
   forRows e st fb doc (row # rows) pdfs lg = (lg, Inl err)"
  by (simp add: processRow_throws)

lemma generatePDFs_ok:
  assumes "pdfFile st = Some f" "mappings st \<noteq> []" "excelData st \<noteq> []"
    and "fetch e fontUrl = Inr fb" "PDFDocument_load e (file_data f) = Inr doc"
    and "embedFont e fb = Inr fnt"
  shows "generatePDFs e st =
           Fetch fontUrl # ArrayBuffer (file_name f) #
           concat (map (\<lambda>row. missing_pages (mappings st) doc) (excelData st)) @
           downloadAll (map (row_output fnt st doc) (excelData st))"
  using assms by (simp add: generatePDFs_def guard_returns_def forRows_ok)

lemma generatePDFs_embed_throws:
  assumes "pdfFile st = Some f" "mappings st \<noteq> []" "excelData st \<noteq> []"
    and "fetch e fontUrl = Inr fb" "PDFDocument_load e (file_data f) = Inr doc"
    and "embedFont e fb = Inl err"
  shows "generatePDFs e st = Fetch fontUrl # ArrayBuffer (file_name f) # catch_block err"
proof -
  from assms(3) obtain row rows where "excelData st = row # rows" by (cases "excelData st") auto
  with assms show ?thesis
    by (simp add: generatePDFs_def guard_returns_def processRow_throws)
qed

lemma generatePDFs_downloads_ok:
  assumes "pdfFile st = Some f" "mappings st \<noteq> []"
    and "fetch e fontUrl = Inr fb" "PDFDocument_load e (file_data f) = Inr doc"
    and "embedFont e fb = Inr fnt"
  shows "downloads (generatePDFs e st) = map (row_output fnt st doc) (excelData st)"
proof (cases "excelData st = []")
  case True
  then show ?thesis by (simp add: generatePDFs_def guard_returns_def)
next
  case False
  with assms show ?thesis
    by (simp add: generatePDFs_ok downloads_append downloads_concat_missing downloads_downloadAll)
qed

lemma generatePDFs_fetch_throws:
  "\<not> guard_returns st \<Longrightarrow> fetch e fontUrl = Inl err \<Longrightarrow>
   generatePDFs e st = Fetch fontUrl # catch_block err"
  by (simp add: generatePDFs_def)

lemma generatePDFs_load_throws:
  "\<not> guard_returns st \<Longrightarrow> pdfFile st = Some f \<Longrightarrow> fetch e fontUrl = Inr fb \<Longrightarrow>
   PDFDocument_load e (file_data f) = Inl err \<Longrightarrow>
   generatePDFs e st = Fetch fontUrl # ArrayBuffer (file_name f) # catch_block err"
  by (simp add: generatePDFs_def)

lemma fatal_aborts:
  assumes "pdfFile st = Some f" "excelData st \<noteq> []" "mappings st \<noteq> []"
    and "(\<exists>err. fetch e fontUrl = Inl err) \<or> (\<exists>err. PDFDocument_load e (file_data f) = Inl err)"
  shows "downloads (generatePDFs e st) = [] \<and>
         last (generatePDFs e st) = Alert ''Error generating PDFs. Please check the console for details.''"
proof -
  from assms have g: "\<not> guard_returns st" by (simp add: guard_returns_def)
  show ?thesis
  proof (cases "fetch e fontUrl")
    case (Inl err)
    with g show ?thesis
      using last_catch_block [of "[Fetch fontUrl]" err]
      by (simp add: generatePDFs_fetch_throws downloads_catch_block)
  next
    case (Inr fb)
    with assms(4) obtain err where "PDFDocument_load e (file_data f) = Inl err" by auto
    with g Inr assms(1) show ?thesis
      using last_catch_block [of "[Fetch fontUrl, ArrayBuffer (file_name f)]" err]
      by (simp add: generatePDFs_load_throws downloads_catch_block)
  qed
qed

lemma all_or_nothing:
  "downloads (generatePDFs e st) = [] \<or>
   length (downloads (generatePDFs e st)) = length (excelData st)"
proof (cases "guard_returns st")
  case True
  then show ?thesis by (simp add: generatePDFs_def)
next
  case False
  then obtain f where f: "pdfFile st = Some f" and ne: "excelData st \<noteq> []" "mappings st \<noteq> []"
    by (auto simp: guard_returns_def)
  show ?thesis
  proof (cases "fetch e fontUrl")
    case (Inl err)
    with f ne show ?thesis using fatal_aborts [of st f e] by blast
  next
    case fb: (Inr fb)
    show ?thesis
    proof (cases "PDFDocument_load e (file_data f)")
      case (Inl err)
      with f ne show ?thesis using fatal_aborts [of st f e] by blast
    next
      case doc: (Inr doc)
      show ?thesis
      proof (cases "embedFont e fb")
        case (Inl err)
        with f ne fb doc show ?thesis
          by (simp add: generatePDFs_embed_throws downloads_catch_block)
      next
        case (Inr fnt)
        with f ne fb doc show ?thesis
          by (simp add: generatePDFs_downloads_ok)
      qed
    qed
  qed
qed

lemma js_join_filename:
  "newFilename base (filter (\<lambda>s. s \<noteq> []) vals) =
     (if filter (\<lambda>s. s \<noteq> []) vals \<noteq> []
      then base @ ''-'' @ js_join (filter (\<lambda>s. s \<noteq> []) vals) ''-'' @ ''.pdf''
      else base @ ''.pdf'')"
  by (simp add: newFilename_def)

lemma row_output_filename:
  "snd (row_output fnt st doc row) =
     newFilename (baseFilename st)
       (filter (\<lambda>s. s \<noteq> []) (map (value_of row) (selectedFilenameFields st)))"
  by (simp add: row_output_def fieldValues_def)

subsection \<open>Runs of src/unnamed/part_000\<close>

text \<open>The same for the other version, whose downloads happen inside the row loop.\<close>

lemma processRow_part000_ok:
  "embedFont e fb = Inr fnt \<Longrightarrow>
   processRow_part000 e f st fb doc row =
     (missing_pages (mappings st) doc @
      [Download (fst (row_output_part000 fnt f st doc row)) (snd (row_output_part000 fnt f st doc row))],
      None)"
  by (simp add: processRow_part000_def newPdf_pages_eq fold_drawMapping_forEach
      fold_drawMapping_awaited row_output_part000_def)

lemma processRow_part000_throws:
  "embedFont e fb = Inl err \<Longrightarrow> processRow_part000 e f st fb doc row = ([], Some err)"
  by (simp add: processRow_part000_def)

lemma forRows_part000_ok:
  "embedFont e fb = Inr fnt \<Longrightarrow>
   \<exists>tr. forRows_part000 e f st fb doc rows lg = (lg @ tr, None) \<and>
        downloads tr = map (row_output_part000 fnt f st doc) rows \<and>
        (\<forall>s. Alert s \<notin> set tr)"
proof (induction rows arbitrary: lg)
  case Nil
  then show ?case by simp
next
  case (Cons row rows)
  let ?l = "missing_pages (mappings st) doc @
      [Download (fst (row_output_part000 fnt f st doc row)) (snd (row_output_part000 fnt f st doc row))]"
  from Cons.IH [OF Cons.prems, of "lg @ ?l"] obtain tr where
    tr: "forRows_part000 e f st fb doc rows (lg @ ?l) = ((lg @ ?l) @ tr, None)"
      "downloads tr = map (row_output_part000 fnt f st doc) rows" "\<forall>s. Alert s \<notin> set tr"
    by blast
  have "forRows_part000 e f st fb doc (row # rows) lg = (lg @ (?l @ tr), None)"
    using Cons.prems tr(1) by (simp add: processRow_part000_ok)
  moreover have "downloads (?l @ tr) = map (row_output_part000 fnt f st doc) (row # rows)"
    using tr(2) by (simp add: downloads_append downloads_missing_pages)
  moreover have "\<forall>s. Alert s \<notin> set (?l @ tr)"
    using tr(3) by (auto simp: missing_pages_def)
  ultimately show ?case by blast
qed

lemma generatePDFs_part000_ok:
  assumes "pdfFile st = Some f" "mappings st \<noteq> []"
    and "fetch e fontUrl = Inr fb" "PDFDocument_load e (file_data f) = Inr doc"
    and "embedFont e fb = Inr fnt"
  shows "downloads (generatePDFs_part000 e st) = map (row_output_part000 fnt f st doc) (excelData st)"
proof (cases "excelData st = []")
  case True
  then show ?thesis by (simp add: generatePDFs_part000_def guard_returns_def)
next
  case False
  from forRows_part000_ok [OF assms(5), of f st doc "excelData st" "[]"] obtain tr where
    tr: "forRows_part000 e f st fb doc (excelData st) [] = (tr, None)"
        "downloads tr = map (row_output_part000 fnt f st doc) (excelData st)"
    by auto
  with assms False show ?thesis
    by (simp add: generatePDFs_part000_def guard_returns_def)
qed

lemma generatePDFs_part000_fetch_throws:
  "\<not> guard_returns st \<Longrightarrow> fetch e fontUrl = Inl err \<Longrightarrow>
   generatePDFs_part000 e st = Fetch fontUrl # catch_block err"
  by (simp add: generatePDFs_part000_def)

lemma generatePDFs_part000_load_throws:
  "\<not> guard_returns st \<Longrightarrow> pdfFile st = Some f \<Longrightarrow> fetch e fontUrl = Inr fb \<Longrightarrow>
   PDFDocument_load e (file_data f) = Inl err \<Longrightarrow>
   generatePDFs_part000 e st = Fetch fontUrl # ArrayBuffer (file_name f) # catch_block err"
  by (simp add: generatePDFs_part000_def)

lemma fatal_aborts_part000:
  assumes "pdfFile st = Some f" "excelData st \<noteq> []" "mappings st \<noteq> []"
    and "(\<exists>err. fetch e fontUrl = Inl err) \<or> (\<exists>err. PDFDocument_load e (file_data f) = Inl err)"
  shows "downloads (generatePDFs_part000 e st) = [] \<and>
         last (generatePDFs_part000 e st) =
           Alert ''Error generating PDFs. Please check the console for details.''"
proof -
  from assms have g: "\<not> guard_returns st" by (simp add: guard_returns_def)
  show ?thesis
  proof (cases "fetch e fontUrl")
    case (Inl err)
    with g show ?thesis
      using last_catch_block [of "[Fetch fontUrl]" err]
      by (simp add: generatePDFs_part000_fetch_throws downloads_catch_block)
  next
    case (Inr fb)
    with assms(4) obtain err where "PDFDocument_load e (file_data f) = Inl err" by auto
    with g Inr assms(1) show ?thesis
      using last_catch_block [of "[Fetch fontUrl, ArrayBuffer (file_name f)]" err]
      by (simp add: generatePDFs_part000_load_throws downloads_catch_block)
  qed
qed

subsection \<open>Rounding in the coordinate mapper\<close>

text \<open>The stored coordinate is within one half of the exact quotient.\<close>

lemma Math_round_near: "\<bar>Math_round r - r\<bar> \<le> 1 / 2"
  using of_int_round_abs_le [of r] by (simp add: Math_round_def round_def)

lemma Math_round_int: "Math_round (of_int k) = of_int k"
  by (simp add: Math_round_def)

lemma Math_round_Ints: "r \<in> \<int> \<Longrightarrow> Math_round r = r"
  by (auto simp: Ints_def Math_round_int)

lemma scaled_back_near:
  assumes "0 < s"
  shows "\<bar>Math_round (p / s) * s - p\<bar> \<le> s / 2"
proof -
  have "Math_round (p / s) * s - p = (Math_round (p / s) - p / s) * s"
    using assms by (simp add: left_diff_distrib)
  then have "\<bar>Math_round (p / s) * s - p\<bar> = \<bar>Math_round (p / s) - p / s\<bar> * s"
    using assms by (simp add: abs_mult)
  also have "\<dots> \<le> (1 / 2) * s"
    using assms Math_round_near [of "p / s"] by (intro mult_right_mono) simp_all
  finally show ?thesis by simp
qed

subsection \<open>The concrete inputs, evaluated\<close>

text \<open>The runs on the concrete inputs, computed once for the statements that use them.\<close>

lemma ex_run_facts:
  "pdfFile ex_app = Some ex_pdf" "mappings ex_app \<noteq> []" "excelData ex_app = [ex_row]"
  "fetch ex_env fontUrl = Inr ''ttf''" "PDFDocument_load ex_env (file_data ex_pdf) = Inr ex_template"
  "embedFont ex_env ''ttf'' = Inr ex_font"
  "pdfFile ex_app_part000 = Some ex_pdf" "mappings ex_app_part000 \<noteq> []"
  "excelData ex_app_part000 = [ex_row]"
  by (simp_all add: ex_app_def ex_env_def ex_app_part000_def)

lemma ex_mappings:
  "mappings ex_app = [ex_mapping]" "mappings ex_app_part000 = [ex_mapping]"
  "mappings ex_app_zero = [ex_mapping]" "excelData ex_app_zero = [ex_row_zero]"
  "excelData ex_rows_part000 = [ex_row, ex_row_no_name]" "filenameField ex_rows_part000 = ''Name''"
  by (simp_all add: ex_app_def ex_app_part000_def ex_app_zero_def ex_rows_part000_def)

lemma ex_values:
  "value_of ex_row ''Amount'' = ''500''" "value_of ex_row ''Name'' = ''Somchai''"
  "value_of ex_row_no_name ''Name'' = []" "value_of ex_row_zero ''Amount'' = []"
  by (simp_all add: value_of_def ex_row_def ex_row_no_name_def ex_row_zero_def nat_digits_examples)

lemma ex_p3_facts:
  "pdfFile ex_app_p3 = Some ex_pdf" "excelData ex_app_p3 = [ex_row]"
  "mappings ex_app_p3 = [ex_mapping_p3, ex_mapping]"
  "baseFilename ex_app_p3 = ''invoice''" "fieldValues ex_app_p3 ex_row = [''Somchai'']"
  by (simp_all add: ex_app_p3_def ex_app_def baseFilename_def fieldValues_def ex_values)

lemma ex_page_exists:
  "page_exists ex_template ex_mapping" "\<not> page_exists ex_template ex_mapping_p3"
  by (simp_all add: page_exists_def ex_template_def ex_mapping_def ex_mapping_p3_def)

lemma ex_stamped_centered:
  "stamped_doc (centered_stamp ex_font ex_row) [ex_mapping] ex_template =
   [ex_page\<lparr>page_texts := [\<lparr>stamp_text = ''500'', stamp_x = 185 / 2, stamp_y = 745,
                              stamp_font = ex_font, stamp_size = 10\<rparr>]\<rparr>, ex_page]"
  by (simp add: stamped_doc_def on_page_def page_exists_def ex_template_def ex_mapping_p3_def
      ex_mapping_def centered_stamp_def ex_values ex_font_def ex_page_def)

lemma ex_stamped_left:
  "stamped_doc (left_stamp ex_font ex_row) [ex_mapping] ex_template =
   [ex_page\<lparr>page_texts := [\<lparr>stamp_text = ''500'', stamp_x = 100, stamp_y = 745,
                              stamp_font = ex_font, stamp_size = 10\<rparr>]\<rparr>, ex_page]"
  by (simp add: stamped_doc_def on_page_def ex_template_def
      ex_mapping_def left_stamp_def ex_values ex_page_def)

lemma ex_stamped_left_twice:
  "stamped_doc (left_stamp ex_font ex_row) [ex_mapping]
     (stamped_doc (left_stamp ex_font ex_row) [ex_mapping] ex_template) =
   [ex_page\<lparr>page_texts := [\<lparr>stamp_text = ''500'', stamp_x = 100, stamp_y = 745,
                              stamp_font = ex_font, stamp_size = 10\<rparr>,
                             \<lparr>stamp_text = ''500'', stamp_x = 100, stamp_y = 745,
                              stamp_font = ex_font, stamp_size = 10\<rparr>]\<rparr>, ex_page]"
  unfolding ex_stamped_left
  by (simp add: stamped_doc_def on_page_def
      ex_mapping_def left_stamp_def ex_values ex_page_def)

lemma ex_stamped_zero:
  "stamped_doc (centered_stamp ex_font ex_row_zero) [ex_mapping] ex_template =
   [ex_page\<lparr>page_texts := [\<lparr>stamp_text = [], stamp_x = 100, stamp_y = 745,
                              stamp_font = ex_font, stamp_size = 10\<rparr>]\<rparr>, ex_page]"
  by (simp add: stamped_doc_def on_page_def ex_template_def
      ex_mapping_def centered_stamp_def ex_values ex_font_def ex_page_def)

lemma ex_app_downloads:
  "downloads (generatePDFs ex_env ex_app) =
   [([ex_page\<lparr>page_texts := [\<lparr>stamp_text = ''500'', stamp_x = 185 / 2, stamp_y = 745,
                              stamp_font = ex_font, stamp_size = 10\<rparr>]\<rparr>, ex_page],
     ''invoice-Somchai.pdf'')]"
proof -
  have "downloads (generatePDFs ex_env ex_app) =
        map (row_output ex_font ex_app ex_template) (excelData ex_app)"
    by (rule generatePDFs_downloads_ok [where fb = "''ttf''" and f = ex_pdf])
      (simp_all add: ex_run_facts)
  then show ?thesis
    by (simp add: ex_run_facts row_output_def ex_app_def ex_stamped_centered
        newFilename_def baseFilename_def fieldValues_def ex_values)
qed

lemma ex_part000_downloads:
  "downloads (generatePDFs_part000 ex_env ex_app_part000) =
   [([ex_page\<lparr>page_texts := [\<lparr>stamp_text = ''500'', stamp_x = 100, stamp_y = 745,
                              stamp_font = ex_font, stamp_size = 10\<rparr>,
                             \<lparr>stamp_text = ''500'', stamp_x = 100, stamp_y = 745,
                              stamp_font = ex_font, stamp_size = 10\<rparr>]\<rparr>, ex_page],
     ''template-Somchai.pdf'')]"
proof -
  have "downloads (generatePDFs_part000 ex_env ex_app_part000) =
        map (row_output_part000 ex_font ex_pdf ex_app_part000 ex_template) (excelData ex_app_part000)"
    by (rule generatePDFs_part000_ok [where fb = "''ttf''"]) (simp_all add: ex_run_facts)
  then show ?thesis
    by (simp add: ex_run_facts row_output_part000_def ex_app_part000_def ex_stamped_left_twice
        newFilename_part000_def ex_pdf_def ex_values)
qed

lemma ex_rows_part000_downloads:
  "map snd (downloads (generatePDFs_part000 ex_env ex_rows_part000)) =
     [''template-Somchai.pdf'', ''template-.pdf'']"
proof -
  have "downloads (generatePDFs_part000 ex_env ex_rows_part000) =
        map (row_output_part000 ex_font ex_pdf ex_rows_part000 ex_template)
          (excelData ex_rows_part000)"
    by (rule generatePDFs_part000_ok [where fb = "''ttf''"])
      (simp_all add: ex_run_facts ex_rows_part000_def)
  then show ?thesis
    by (simp add: row_output_part000_def ex_rows_part000_def ex_app_part000_def
        newFilename_part000_def ex_pdf_def ex_values)
qed

lemma nat_digits_20: "nat_digits 20 = ''20''"
  by (simp add: nat_digits.simps)

lemma ex_values_malee:
  "value_of ex_row_malee ''Amount'' = ''20''" "value_of ex_row_malee ''Name'' = ''Malee''"
  by (simp_all add: value_of_def ex_row_malee_def nat_digits_20)

lemma ex_two_facts:
  "pdfFile ex_app_two = Some ex_pdf" "mappings ex_app_two = [ex_mapping]"
  "excelData ex_app_two = [ex_row, ex_row_malee]"
  "baseFilename ex_app_two = ''invoice''" "selectedFilenameFields ex_app_two = [''Name'']"
  "pdfFile ex_app_two_part000 = Some ex_pdf" "mappings ex_app_two_part000 = [ex_mapping]"
  "excelData ex_app_two_part000 = [ex_row, ex_row_malee]"
  "filenameField ex_app_two_part000 = ''Name''"
  by (simp_all add: ex_app_two_def ex_app_two_part000_def ex_app_def ex_app_part000_def
      baseFilename_def)

lemma ex_stamped_centered_malee:
  "stamped_doc (centered_stamp ex_font ex_row_malee) [ex_mapping] ex_template =
   [ex_page\<lparr>page_texts := [\<lparr>stamp_text = ''20'', stamp_x = 95, stamp_y = 745,
                              stamp_font = ex_font, stamp_size = 10\<rparr>]\<rparr>, ex_page]"
  by (simp add: stamped_doc_def on_page_def ex_template_def
      ex_mapping_def centered_stamp_def ex_values_malee ex_font_def ex_page_def)

lemma ex_stamped_left_twice_malee:
  "stamped_doc (left_stamp ex_font ex_row_malee) [ex_mapping]
     (stamped_doc (left_stamp ex_font ex_row_malee) [ex_mapping] ex_template) =
   [ex_page\<lparr>page_texts := [\<lparr>stamp_text = ''20'', stamp_x = 100, stamp_y = 745,
                              stamp_font = ex_font, stamp_size = 10\<rparr>,
                             \<lparr>stamp_text = ''20'', stamp_x = 100, stamp_y = 745,
                              stamp_font = ex_font, stamp_size = 10\<rparr>]\<rparr>, ex_page]"
proof -
  have "stamped_doc (left_stamp ex_font ex_row_malee) [ex_mapping] ex_template =
   [ex_page\<lparr>page_texts := [\<lparr>stamp_text = ''20'', stamp_x = 100, stamp_y = 745,
                              stamp_font = ex_font, stamp_size = 10\<rparr>]\<rparr>, ex_page]"
    by (simp add: stamped_doc_def on_page_def ex_template_def
        ex_mapping_def left_stamp_def ex_values_malee ex_page_def)
  then show ?thesis
    by (simp add: stamped_doc_def on_page_def
        ex_mapping_def left_stamp_def ex_values_malee ex_page_def)
qed

lemma ex_two_row_outputs:
  "row_output ex_font ex_app_two ex_template ex_row =
     ([ex_page\<lparr>page_texts := [\<lparr>stamp_text = ''500'', stamp_x = 185 / 2, stamp_y = 745,
                              stamp_font = ex_font, stamp_size = 10\<rparr>]\<rparr>, ex_page],
      ''invoice-Somchai.pdf'')"
  "row_output ex_font ex_app_two ex_template ex_row_malee =
     ([ex_page\<lparr>page_texts := [\<lparr>stamp_text = ''20'', stamp_x = 95, stamp_y = 745,
                              stamp_font = ex_font, stamp_size = 10\<rparr>]\<rparr>, ex_page],
      ''invoice-Malee.pdf'')"
  "row_output_part000 ex_font ex_pdf ex_app_two_part000 ex_template ex_row =
     ([ex_page\<lparr>page_texts := [\<lparr>stamp_text = ''500'', stamp_x = 100, stamp_y = 745,
                              stamp_font = ex_font, stamp_size = 10\<rparr>,
                             \<lparr>stamp_text = ''500'', stamp_x = 100, stamp_y = 745,
                              stamp_font = ex_font, stamp_size = 10\<rparr>]\<rparr>, ex_page],
      ''template-Somchai.pdf'')"
  "row_output_part000 ex_font ex_pdf ex_app_two_part000 ex_template ex_row_malee =
     ([ex_page\<lparr>page_texts := [\<lparr>stamp_text = ''20'', stamp_x = 100, stamp_y = 745,
                              stamp_font = ex_font, stamp_size = 10\<rparr>,
                             \<lparr>stamp_text = ''20'', stamp_x = 100, stamp_y = 745,
                              stamp_font = ex_font, stamp_size = 10\<rparr>]\<rparr>, ex_page],
      ''template-Malee.pdf'')"
  by (simp_all add: row_output_def row_output_part000_def ex_two_facts ex_stamped_centered
      ex_stamped_centered_malee ex_stamped_left_twice ex_stamped_left_twice_malee
      newFilename_def fieldValues_def newFilename_part000_def ex_values ex_values_malee ex_pdf_def)

section \<open>The claims\<close>

text \<open>C9. \<^verbatim>\<open>handleRemoveLastMapping\<close> on a registry of size N with N at least 1 yields
  a registry of size N - 1, equal to the original without its last element; it undoes
  the latest \<^verbatim>\<open>handleAddMapping\<close>; on the empty registry it changes nothing.\<close>

theorem removeLast_pops_last:
  "(ms \<noteq> [] \<longrightarrow>
      length (handleRemoveLastMapping ms) = length ms - 1 \<and>
      handleRemoveLastMapping ms @ [last ms] = ms) \<and>
   handleRemoveLastMapping (handleAddMapping ms m) = ms \<and>
   handleRemoveLastMapping [] = []"
  by (simp add: handleRemoveLastMapping_def handleAddMapping_def js_slice_butlast)

theorem removeLast_pops_last_witness:
  "[ex_mapping, ex_mapping_p3] \<noteq> [] \<and>
   length (handleRemoveLastMapping [ex_mapping, ex_mapping_p3]) = 1 \<and>
   handleRemoveLastMapping [ex_mapping, ex_mapping_p3] = [ex_mapping] \<and>
   handleRemoveLastMapping [] = []"
  using removeLast_pops_last [of "[ex_mapping, ex_mapping_p3]" ex_mapping] by simp

text \<open>C10. When the template is absent, the row set is empty or the mapping set is
  empty, \<^verbatim>\<open>generatePDFs\<close> (in either version) returns at its guard: the run has no
  effect at all, so no font is fetched, the template is not read and nothing is
  downloaded.\<close>

theorem guard_returns_no_effect:
  "(pdfFile st = None \<or> excelData st = [] \<or> mappings st = [] \<longrightarrow> generatePDFs e st = []) \<and>
   (pdfFile st' = None \<or> excelData st' = [] \<or> mappings st' = [] \<longrightarrow>
      generatePDFs_part000 e st' = [])"
  by (auto simp: generatePDFs_def generatePDFs_part000_def guard_returns_def)

theorem guard_returns_no_effect_witness:
  "mappings (ex_app\<lparr>mappings := []\<rparr>) = [] \<and>
   generatePDFs ex_env (ex_app\<lparr>mappings := []\<rparr>) = [] \<and>
   pdfFile (ex_app_part000\<lparr>pdfFile := None\<rparr>) = None \<and>
   generatePDFs_part000 ex_env (ex_app_part000\<lparr>pdfFile := None\<rparr>) = []"
  using guard_returns_no_effect [of "ex_app\<lparr>mappings := []\<rparr>" ex_env "ex_app_part000\<lparr>pdfFile := None\<rparr>"]
  by simp

text \<open>C1 (as amended). In a run whose template is present and decodable, whose mapping
  set is not empty and whose font is fetched and embedded, the downloads are, in order,
  the outputs of the rows in source order: there are exactly as many as rows, and the
  i-th is the document and the filename of the i-th row. This holds for both versions
  of \<^verbatim>\<open>generatePDFs\<close>.\<close>

theorem batch_outputs_follow_rows:
  "(pdfFile st = Some f \<and> mappings st \<noteq> [] \<and> fetch e fontUrl = Inr fb \<and>
    PDFDocument_load e (file_data f) = Inr doc \<and> embedFont e fb = Inr fnt \<longrightarrow>
      downloads (generatePDFs e st) = map (row_output fnt st doc) (excelData st) \<and>
      length (downloads (generatePDFs e st)) = length (excelData st)) \<and>
   (pdfFile st' = Some f' \<and> mappings st' \<noteq> [] \<and> fetch e fontUrl = Inr fb \<and>
    PDFDocument_load e (file_data f') = Inr doc' \<and> embedFont e fb = Inr fnt \<longrightarrow>
      downloads (generatePDFs_part000 e st') =
        map (row_output_part000 fnt f' st' doc') (excelData st') \<and>
      length (downloads (generatePDFs_part000 e st')) = length (excelData st'))"
  by (simp add: generatePDFs_downloads_ok generatePDFs_part000_ok)

theorem batch_outputs_follow_rows_witness:
  "pdfFile ex_app_two = Some ex_pdf \<and> mappings ex_app_two \<noteq> [] \<and>
   fetch ex_env fontUrl = Inr ''ttf'' \<and>
   PDFDocument_load ex_env (file_data ex_pdf) = Inr ex_template \<and>
   embedFont ex_env ''ttf'' = Inr ex_font \<and>
   excelData ex_app_two = [ex_row, ex_row_malee] \<and>
   value_of ex_row ''Name'' = ''Somchai'' \<and> value_of ex_row_malee ''Name'' = ''Malee'' \<and>
   length (downloads (generatePDFs ex_env ex_app_two)) = 2 \<and>
   downloads (generatePDFs ex_env ex_app_two) =
     [([ex_page\<lparr>page_texts := [\<lparr>stamp_text = ''500'', stamp_x = 185 / 2, stamp_y = 745,
                                 stamp_font = ex_font, stamp_size = 10\<rparr>]\<rparr>, ex_page],
       ''invoice-Somchai.pdf''),
      ([ex_page\<lparr>page_texts := [\<lparr>stamp_text = ''20'', stamp_x = 95, stamp_y = 745,
                                 stamp_font = ex_font, stamp_size = 10\<rparr>]\<rparr>, ex_page],
       ''invoice-Malee.pdf'')] \<and>
   pdfFile ex_app_two_part000 = Some ex_pdf \<and> mappings ex_app_two_part000 \<noteq> [] \<and>
   excelData ex_app_two_part000 = [ex_row, ex_row_malee] \<and>
   length (downloads (generatePDFs_part000 ex_env ex_app_two_part000)) = 2 \<and>
   downloads (generatePDFs_part000 ex_env ex_app_two_part000) =
     [([ex_page\<lparr>page_texts := [\<lparr>stamp_text = ''500'', stamp_x = 100, stamp_y = 745,
                                 stamp_font = ex_font, stamp_size = 10\<rparr>,
                                \<lparr>stamp_text = ''500'', stamp_x = 100, stamp_y = 745,
                                 stamp_font = ex_font, stamp_size = 10\<rparr>]\<rparr>, ex_page],
       ''template-Somchai.pdf''),
      ([ex_page\<lparr>page_texts := [\<lparr>stamp_text = ''20'', stamp_x = 100, stamp_y = 745,
                                 stamp_font = ex_font, stamp_size = 10\<rparr>,
                                \<lparr>stamp_text = ''20'', stamp_x = 100, stamp_y = 745,
                                 stamp_font = ex_font, stamp_size = 10\<rparr>]\<rparr>, ex_page],
       ''template-Malee.pdf'')]"
proof -
  have h: "pdfFile ex_app_two = Some ex_pdf \<and> mappings ex_app_two \<noteq> [] \<and>
     fetch ex_env fontUrl = Inr ''ttf'' \<and>
     PDFDocument_load ex_env (file_data ex_pdf) = Inr ex_template \<and>
     embedFont ex_env ''ttf'' = Inr ex_font"
    "pdfFile ex_app_two_part000 = Some ex_pdf \<and> mappings ex_app_two_part000 \<noteq> [] \<and>
     fetch ex_env fontUrl = Inr ''ttf'' \<and>
     PDFDocument_load ex_env (file_data ex_pdf) = Inr ex_template \<and>
     embedFont ex_env ''ttf'' = Inr ex_font"
    by (simp_all add: ex_two_facts ex_run_facts)
  from batch_outputs_follow_rows [of ex_app_two ex_pdf ex_env "''ttf''" ex_template ex_font
      ex_app_two_part000 ex_pdf ex_template] h
  have "downloads (generatePDFs ex_env ex_app_two) =
          map (row_output ex_font ex_app_two ex_template) (excelData ex_app_two)"
    and "downloads (generatePDFs_part000 ex_env ex_app_two_part000) =
          map (row_output_part000 ex_font ex_pdf ex_app_two_part000 ex_template)
            (excelData ex_app_two_part000)"
    by blast+
  with h show ?thesis
    by (simp add: ex_two_facts ex_two_row_outputs ex_values ex_values_malee)
qed

text \<open>The claim as stated asks only for a non-empty mapping set and a decodable template.
  With the font fetch failing, a run over one row downloads nothing.\<close>

theorem batch_without_font_counterexample:
  "pdfFile ex_app = Some ex_pdf \<and> mappings ex_app \<noteq> [] \<and>
   PDFDocument_load ex_env_offline (file_data ex_pdf) = Inr ex_template \<and>
   length (excelData ex_app) = 1 \<and>
   downloads (generatePDFs ex_env_offline ex_app) = []"
  by (simp add: ex_run_facts generatePDFs_def guard_returns_def ex_env_offline_def ex_env_def
      downloads_catch_block)

text \<open>C7. When the guard has been passed and the font fetch or the decoding of the
  template throws, the run (in either version) downloads nothing and ends with the
  alert of the \<^verbatim>\<open>catch\<close> block. In project/src/App.tsx every run downloads either
  nothing or one document per row, since the downloads start only after the row loop
  has ended.\<close>

theorem fatal_error_emits_nothing:
  "(pdfFile st = Some f \<and> excelData st \<noteq> [] \<and> mappings st \<noteq> [] \<and>
    ((\<exists>err. fetch e fontUrl = Inl err) \<or> (\<exists>err. PDFDocument_load e (file_data f) = Inl err)) \<longrightarrow>
      downloads (generatePDFs e st) = [] \<and>
      last (generatePDFs e st) =
        Alert ''Error generating PDFs. Please check the console for details.'') \<and>
   (pdfFile st' = Some f' \<and> excelData st' \<noteq> [] \<and> mappings st' \<noteq> [] \<and>
    ((\<exists>err. fetch e fontUrl = Inl err) \<or> (\<exists>err. PDFDocument_load e (file_data f') = Inl err)) \<longrightarrow>
      downloads (generatePDFs_part000 e st') = [] \<and>
      last (generatePDFs_part000 e st') =
        Alert ''Error generating PDFs. Please check the console for details.'') \<and>
   (downloads (generatePDFs e st) = [] \<or>
    length (downloads (generatePDFs e st)) = length (excelData st))"
  using fatal_aborts [of st f e] fatal_aborts_part000 [of st' f' e] all_or_nothing [of e st]
  by blast

theorem fatal_error_emits_nothing_witness:
  "pdfFile ex_app = Some ex_pdf \<and> excelData ex_app \<noteq> [] \<and> mappings ex_app \<noteq> [] \<and>
   fetch ex_env_offline fontUrl = Inl (Error ''Failed to fetch'') \<and>
   downloads (generatePDFs ex_env_offline ex_app) = [] \<and>
   last (generatePDFs ex_env_offline ex_app) =
     Alert ''Error generating PDFs. Please check the console for details.'' \<and>
   pdfFile ex_app_part000 = Some ex_pdf \<and> excelData ex_app_part000 \<noteq> [] \<and>
   mappings ex_app_part000 \<noteq> [] \<and>
   downloads (generatePDFs_part000 ex_env_offline ex_app_part000) = [] \<and>
   last (generatePDFs_part000 ex_env_offline ex_app_part000) =
     Alert ''Error generating PDFs. Please check the console for details.'' \<and>
   PDFDocument_load ex_env_bad_template (file_data ex_pdf) = Inl (Error ''No PDF header found'') \<and>
   downloads (generatePDFs ex_env_bad_template ex_app) = [] \<and>
   last (generatePDFs ex_env_bad_template ex_app) =
     Alert ''Error generating PDFs. Please check the console for details.''"
proof -
  have h: "fetch ex_env_offline fontUrl = Inl (Error ''Failed to fetch'')"
    "PDFDocument_load ex_env_bad_template (file_data ex_pdf) = Inl (Error ''No PDF header found'')"
    by (simp_all add: ex_env_offline_def ex_env_bad_template_def)
  show ?thesis
    using fatal_error_emits_nothing [of ex_app ex_pdf ex_env_offline ex_app_part000 ex_pdf]
      fatal_error_emits_nothing [of ex_app ex_pdf ex_env_bad_template ex_app_part000 ex_pdf] h
    by (simp add: ex_run_facts)
qed

text \<open>C5. In project/src/App.tsx, for a mapping whose page index exceeds the page count
  of the template, in a run that reaches the row loop (template decoded, font fetched
  and embedded): the console error for that page is written at least once per row;
  every row still gets its download, whose document is the template stamped with
  exactly the mappings whose page exists; every downloaded document keeps the
  contents and heights of the template pages; and no alert is raised, so neither the
  row nor the batch is aborted.\<close>

theorem missing_page_is_skipped:
  assumes "pdfFile st = Some f" and "excelData st \<noteq> []"
    and "fetch e fontUrl = Inr fb" and "PDFDocument_load e (file_data f) = Inr doc"
    and "embedFont e fb = Inr fnt"
    and "m \<in> set (mappings st)" and "int (length doc) < mapping_page m"
  shows "length (excelData st) \<le>
           count_list (generatePDFs e st)
             (ConsoleError (''Page '' @ js_String (Num (mapping_page m)) @ '' not found'') None) \<and>
         downloads (generatePDFs e st) =
           map (\<lambda>row. (stamped_doc (centered_stamp fnt row)
                          (filter (page_exists doc) (mappings st)) doc,
                        newFilename (baseFilename st) (fieldValues st row)))
             (excelData st) \<and>
         (\<forall>d n. (d, n) \<in> set (downloads (generatePDFs e st)) \<longrightarrow>
            map page_content d = map page_content doc \<and> map page_height d = map page_height doc) \<and>
         (\<forall>s. Alert s \<notin> set (generatePDFs e st))"
proof -
  from assms(6) have ne: "mappings st \<noteq> []" by auto
  from assms(7) have miss: "\<not> page_exists doc m" by (simp add: page_exists_def)
  have run: "generatePDFs e st =
           Fetch fontUrl # ArrayBuffer (file_name f) #
           concat (map (\<lambda>row. missing_pages (mappings st) doc) (excelData st)) @
           downloadAll (map (row_output fnt st doc) (excelData st))"
    using assms ne by (simp add: generatePDFs_ok)
  have c: "length (excelData st) \<le>
           count_list (generatePDFs e st)
             (ConsoleError (''Page '' @ js_String (Num (mapping_page m)) @ '' not found'') None)"
    using count_concat_missing [OF assms(6) miss, of "excelData st"]
    by (simp add: run count_list_append)
  have d: "downloads (generatePDFs e st) =
           map (\<lambda>row. (stamped_doc (centered_stamp fnt row)
                          (filter (page_exists doc) (mappings st)) doc,
                        newFilename (baseFilename st) (fieldValues st row)))
             (excelData st)"
    by (simp add: run downloads_append downloads_concat_missing downloads_downloadAll
        row_output_def stamped_doc_valid_only)
  have p: "\<forall>d n. (d, n) \<in> set (downloads (generatePDFs e st)) \<longrightarrow>
            map page_content d = map page_content doc \<and> map page_height d = map page_height doc"
    unfolding d using stamped_doc_keeps_pages by auto
  have a: "\<forall>s. Alert s \<notin> set (generatePDFs e st)"
    using alert_notin_concat_missing [of _ "mappings st" doc "excelData st"]
    by (simp add: run alert_notin_downloadAll del: set_concat)
  from c d p a show ?thesis by blast
qed

theorem missing_page_is_skipped_witness:
  "ex_mapping_p3 \<in> set (mappings ex_app_p3) \<and>
   int (length ex_template) < mapping_page ex_mapping_p3 \<and>
   1 \<le> count_list (generatePDFs ex_env ex_app_p3) (ConsoleError ''Page 3 not found'' None) \<and>
   downloads (generatePDFs ex_env ex_app_p3) =
     [([ex_page\<lparr>page_texts := [\<lparr>stamp_text = ''500'', stamp_x = 185 / 2, stamp_y = 745,
                                 stamp_font = ex_font, stamp_size = 10\<rparr>]\<rparr>, ex_page],
       ''invoice-Somchai.pdf'')]"
proof -
  have h: "ex_mapping_p3 \<in> set (mappings ex_app_p3)"
    "int (length ex_template) < mapping_page ex_mapping_p3"
    by (simp_all add: ex_p3_facts ex_template_def ex_mapping_p3_def)
  have p: "mapping_page ex_mapping_p3 = 3" by (simp add: ex_mapping_p3_def)
  from missing_page_is_skipped [of ex_app_p3 ex_pdf ex_env "''ttf''" ex_template ex_font ex_mapping_p3] h
  show ?thesis
    by (simp add: ex_p3_facts ex_run_facts p nat_digits_examples ex_page_exists
        ex_stamped_centered newFilename_def)
qed

text \<open>C4 (as amended). In a run that reaches the row loop, the texts on page i of the
  document of row k are, in project/src/App.tsx, the texts of the template page
  followed by one stamp per mapping of that page, in registry order, each drawn at
  x = mapping.x - widthOfTextAtSize(value, 10) / 2 and y = page height - mapping.y - 5.
  In src/unnamed/part_000 every stamp added to the page is drawn left-aligned at
  x = mapping.x of a mapping of that page, with the same y, and every mapping of the
  page has such a stamp.\<close>

theorem stamp_positions:
  "(pdfFile st = Some f \<and> mappings st \<noteq> [] \<and> fetch e fontUrl = Inr fb \<and>
    PDFDocument_load e (file_data f) = Inr doc \<and> embedFont e fb = Inr fnt \<and>
    k < length (excelData st) \<and> i < length doc \<longrightarrow>
      page_texts (fst (downloads (generatePDFs e st) ! k) ! i) =
        page_texts (doc ! i) @
        map (\<lambda>m. \<lparr>stamp_text = value_of (excelData st ! k) (mapping_field m),
                   stamp_x = mapping_x m -
                     widthOfTextAtSize fnt (value_of (excelData st ! k) (mapping_field m)) 10 / 2,
                   stamp_y = page_height (doc ! i) - mapping_y m - 5,
                   stamp_font = fnt, stamp_size = 10\<rparr>)
          (filter (\<lambda>m. mapping_page m = int i + 1) (mappings st))) \<and>
   (pdfFile st' = Some f' \<and> mappings st' \<noteq> [] \<and> fetch e fontUrl = Inr fb \<and>
    PDFDocument_load e (file_data f') = Inr doc' \<and> embedFont e fb = Inr fnt \<and>
    k' < length (excelData st') \<and> i' < length doc' \<longrightarrow>
      (\<forall>s \<in> set (drop (length (page_texts (doc' ! i')))
                   (page_texts (fst (downloads (generatePDFs_part000 e st') ! k') ! i'))).
         \<exists>m \<in> set (mappings st').
           mapping_page m = int i' + 1 \<and>
           stamp_x s = mapping_x m \<and>
           stamp_y s = page_height (doc' ! i') - mapping_y m - 5) \<and>
      (\<forall>m \<in> set (mappings st').
         mapping_page m = int i' + 1 \<longrightarrow>
         (\<exists>s \<in> set (drop (length (page_texts (doc' ! i')))
                      (page_texts (fst (downloads (generatePDFs_part000 e st') ! k') ! i'))).
            stamp_text s = value_of (excelData st' ! k') (mapping_field m) \<and>
            stamp_x s = mapping_x m \<and>
            stamp_y s = page_height (doc' ! i') - mapping_y m - 5)))"
proof (rule conjI; rule impI)
  assume a: "pdfFile st = Some f \<and> mappings st \<noteq> [] \<and> fetch e fontUrl = Inr fb \<and>
    PDFDocument_load e (file_data f) = Inr doc \<and> embedFont e fb = Inr fnt \<and>
    k < length (excelData st) \<and> i < length doc"
  then have "downloads (generatePDFs e st) = map (row_output fnt st doc) (excelData st)"
    by (simp add: generatePDFs_downloads_ok)
  with a show "page_texts (fst (downloads (generatePDFs e st) ! k) ! i) =
        page_texts (doc ! i) @
        map (\<lambda>m. \<lparr>stamp_text = value_of (excelData st ! k) (mapping_field m),
                   stamp_x = mapping_x m -
                     widthOfTextAtSize fnt (value_of (excelData st ! k) (mapping_field m)) 10 / 2,
                   stamp_y = page_height (doc ! i) - mapping_y m - 5,
                   stamp_font = fnt, stamp_size = 10\<rparr>)
          (filter (\<lambda>m. mapping_page m = int i + 1) (mappings st))"
    by (simp add: row_output_def stamped_doc_nth on_page_def centered_stamp_def)
next
  assume a: "pdfFile st' = Some f' \<and> mappings st' \<noteq> [] \<and> fetch e fontUrl = Inr fb \<and>
    PDFDocument_load e (file_data f') = Inr doc' \<and> embedFont e fb = Inr fnt \<and>
    k' < length (excelData st') \<and> i' < length doc'"
  then have "downloads (generatePDFs_part000 e st') =
     map (row_output_part000 fnt f' st' doc') (excelData st')"
    by (simp add: generatePDFs_part000_ok)
  with a have "drop (length (page_texts (doc' ! i')))
                (page_texts (fst (downloads (generatePDFs_part000 e st') ! k') ! i')) =
      map (left_stamp fnt (excelData st' ! k') (page_height (doc' ! i'))) (on_page i' (mappings st')) @
      map (left_stamp fnt (excelData st' ! k') (page_height (doc' ! i'))) (on_page i' (mappings st'))"
    by (simp add: row_output_part000_def stamped_doc_nth)
  then have new: "set (drop (length (page_texts (doc' ! i')))
                (page_texts (fst (downloads (generatePDFs_part000 e st') ! k') ! i'))) =
      left_stamp fnt (excelData st' ! k') (page_height (doc' ! i')) `
        {m \<in> set (mappings st'). mapping_page m = int i' + 1}"
    by (simp add: on_page_def)
  show "(\<forall>s \<in> set (drop (length (page_texts (doc' ! i')))
                   (page_texts (fst (downloads (generatePDFs_part000 e st') ! k') ! i'))).
         \<exists>m \<in> set (mappings st').
           mapping_page m = int i' + 1 \<and>
           stamp_x s = mapping_x m \<and>
           stamp_y s = page_height (doc' ! i') - mapping_y m - 5) \<and>
      (\<forall>m \<in> set (mappings st').
         mapping_page m = int i' + 1 \<longrightarrow>
         (\<exists>s \<in> set (drop (length (page_texts (doc' ! i')))
                      (page_texts (fst (downloads (generatePDFs_part000 e st') ! k') ! i'))).
            stamp_text s = value_of (excelData st' ! k') (mapping_field m) \<and>
            stamp_x s = mapping_x m \<and>
            stamp_y s = page_height (doc' ! i') - mapping_y m - 5))"
    unfolding new by (auto simp: left_stamp_def)
qed

theorem stamp_positions_witness:
  "pdfFile ex_app = Some ex_pdf \<and> mappings ex_app \<noteq> [] \<and> fetch ex_env fontUrl = Inr ''ttf'' \<and>
   PDFDocument_load ex_env (file_data ex_pdf) = Inr ex_template \<and>
   embedFont ex_env ''ttf'' = Inr ex_font \<and>
   0 < length (excelData ex_app) \<and> 0 < length ex_template \<and>
   page_texts (fst (downloads (generatePDFs ex_env ex_app) ! 0) ! 0) =
     [\<lparr>stamp_text = ''500'', stamp_x = 100 - widthOfTextAtSize ex_font ''500'' 10 / 2,
       stamp_y = 800 - 50 - 5, stamp_font = ex_font, stamp_size = 10\<rparr>] \<and>
   pdfFile ex_app_part000 = Some ex_pdf \<and> mappings ex_app_part000 \<noteq> [] \<and>
   0 < length (excelData ex_app_part000) \<and>
   stamp_x (hd (page_texts (fst (downloads (generatePDFs_part000 ex_env ex_app_part000) ! 0) ! 0))) =
     mapping_x ex_mapping"
proof -
  have h: "0 < length (excelData ex_app)" "0 < length ex_template"
    "0 < length (excelData ex_app_part000)"
    by (simp_all add: ex_run_facts ex_template_def)
  from stamp_positions [of ex_app ex_pdf ex_env "''ttf''" ex_template ex_font 0 0
      ex_app_part000 ex_pdf ex_template 0 0] h
  have "page_texts (fst (downloads (generatePDFs ex_env ex_app) ! 0) ! 0) =
        page_texts (ex_template ! 0) @
        map (\<lambda>m. \<lparr>stamp_text = value_of (excelData ex_app ! 0) (mapping_field m),
                   stamp_x = mapping_x m -
                     widthOfTextAtSize ex_font (value_of (excelData ex_app ! 0) (mapping_field m)) 10 / 2,
                   stamp_y = page_height (ex_template ! 0) - mapping_y m - 5,
                   stamp_font = ex_font, stamp_size = 10\<rparr>)
          (filter (\<lambda>m. mapping_page m = int 0 + 1) (mappings ex_app))"
    by (simp add: ex_run_facts)
  then have "page_texts (fst (downloads (generatePDFs ex_env ex_app) ! 0) ! 0) =
     [\<lparr>stamp_text = ''500'', stamp_x = 100 - widthOfTextAtSize ex_font ''500'' 10 / 2,
       stamp_y = 800 - 50 - 5, stamp_font = ex_font, stamp_size = 10\<rparr>]"
    by (simp add: ex_run_facts ex_app_def ex_template_def ex_page_def ex_mapping_def ex_values)
  with h show ?thesis
    by (simp add: ex_run_facts ex_part000_downloads ex_mapping_def)
qed

text \<open>The claim as stated asks for centred stamps wherever a mapping is stamped. In
  src/unnamed/part_000 the stamps of the mapping at x = 100 are drawn at x = 100,
  where the centred position would be 92.5.\<close>

theorem stamp_left_aligned_counterexample:
  "page_exists ex_template ex_mapping \<and> mappings ex_app_part000 = [ex_mapping] \<and>
   map stamp_x (page_texts (fst (downloads (generatePDFs_part000 ex_env ex_app_part000) ! 0) ! 0)) =
     [100, 100] \<and>
   mapping_x ex_mapping -
     widthOfTextAtSize ex_font (value_of ex_row (mapping_field ex_mapping)) 10 / 2 = 185 / 2"
proof -
  have "mapping_x ex_mapping -
     widthOfTextAtSize ex_font (value_of ex_row (mapping_field ex_mapping)) 10 / 2 = 185 / 2"
    by (simp add: ex_mapping_def ex_values ex_font_def)
  then show ?thesis
    by (simp add: ex_part000_downloads ex_page_exists ex_mappings)
qed

text \<open>C6. Each mapping is to be stamped once per row. In src/unnamed/part_000 a run over
  one row with one mapping of page 1 leaves two stamps of that mapping on the page:
  one from the \<^verbatim>\<open>forEach\<close>, one from the \<^verbatim>\<open>Promise.all\<close>. The same run in
  project/src/App.tsx leaves one.\<close>

theorem part000_draws_each_mapping_twice:
  "mappings ex_app_part000 = [ex_mapping] \<and> excelData ex_app_part000 = [ex_row] \<and>
   length (downloads (generatePDFs_part000 ex_env ex_app_part000)) = 1 \<and>
   map stamp_text
     (page_texts (fst (downloads (generatePDFs_part000 ex_env ex_app_part000) ! 0) ! 0)) =
     [''500'', ''500''] \<and>
   map stamp_text (page_texts (fst (downloads (generatePDFs ex_env ex_app) ! 0) ! 0)) = [''500'']"
  by (simp add: ex_part000_downloads ex_app_downloads ex_mappings ex_run_facts)

text \<open>C2. With no non-empty value the filename is to be the base followed by
  \<^verbatim>\<open>.pdf\<close>. In src/unnamed/part_000 a row without the filename field gets the
  name \<^verbatim>\<open>template-.pdf\<close>; the composition of project/src/App.tsx gives
  \<^verbatim>\<open>template.pdf\<close> for the same base and value.\<close>

theorem part000_filename_keeps_hyphen:
  "excelData ex_rows_part000 = [ex_row, ex_row_no_name] \<and>
   value_of ex_row_no_name (filenameField ex_rows_part000) = [] \<and>
   map snd (downloads (generatePDFs_part000 ex_env ex_rows_part000)) =
     [''template-Somchai.pdf'', ''template-.pdf''] \<and>
   newFilename ''template''
     (filter (\<lambda>s. s \<noteq> []) [value_of ex_row_no_name (filenameField ex_rows_part000)]) =
     ''template.pdf''"
  by (simp add: ex_rows_part000_downloads ex_mappings ex_values newFilename_def)

text \<open>C3. The value stamped for a field that exists in the row is to be
  \<^verbatim>\<open>String(row[field])\<close>. For a cell holding the number 0 that is the text
  \<^verbatim>\<open>0\<close>, but the stamped text is empty, since \<^verbatim>\<open>0 || ""\<close> is the empty
  string.\<close>

theorem zero_cell_is_stamped_empty:
  "ex_row_zero ''Amount'' = Some (Num 0) \<and> js_String (Num 0) = ''0'' \<and>
   mappings ex_app_zero = [ex_mapping] \<and> mapping_field ex_mapping = ''Amount'' \<and>
   map stamp_text (page_texts (fst (downloads (generatePDFs ex_env ex_app_zero) ! 0) ! 0)) = [[]]"
proof -
  have "downloads (generatePDFs ex_env ex_app_zero) =
        map (row_output ex_font ex_app_zero ex_template) (excelData ex_app_zero)"
    by (rule generatePDFs_downloads_ok [where fb = "''ttf''" and f = ex_pdf])
      (simp_all add: ex_run_facts ex_app_zero_def)
  then have "page_texts (fst (downloads (generatePDFs ex_env ex_app_zero) ! 0) ! 0) =
     [\<lparr>stamp_text = [], stamp_x = 100, stamp_y = 745, stamp_font = ex_font, stamp_size = 10\<rparr>]"
    by (simp add: row_output_def ex_app_zero_def ex_app_def ex_stamped_zero)
  then show ?thesis
    by (simp add: ex_row_zero_def nat_digits_examples ex_mappings ex_mapping_def)
qed

text \<open>C8 (as amended). Numbers are read as reals. For a positive scale and a selected
  field, a click at the pointer offset (px, py) stores the document coordinates
  (Math.round(px / s), Math.round(py / s)); the overlay maps them back to
  (x * s, y * s), which lies within s / 2 of the pointer offset in each axis, and is
  the pointer offset itself when px / s (respectively py / s) is an integer.\<close>

theorem click_round_trip:
  assumes "0 < scale v" and "selectedField v \<noteq> []"
  shows "\<exists>m. handleCanvasClick v px py = Inr m \<and>
             mapping_x m = Math_round (px / scale v) \<and>
             mapping_y m = Math_round (py / scale v) \<and>
             overlay v [m] = [(mapping_x m * scale v, mapping_y m * scale v)] \<and>
             \<bar>mapping_x m * scale v - px\<bar> \<le> scale v / 2 \<and>
             \<bar>mapping_y m * scale v - py\<bar> \<le> scale v / 2 \<and>
             (px / scale v \<in> \<int> \<longrightarrow> mapping_x m * scale v = px) \<and>
             (py / scale v \<in> \<int> \<longrightarrow> mapping_y m * scale v = py)"
  using assms scaled_back_near [of "scale v" px] scaled_back_near [of "scale v" py]
  by (simp add: handleCanvasClick_def overlay_def Math_round_Ints)

theorem click_round_trip_witness:
  "0 < scale ex_viewer \<and> selectedField ex_viewer \<noteq> [] \<and>
   handleCanvasClick ex_viewer 150 75 =
     Inr \<lparr>mapping_x = 100, mapping_y = 50, mapping_field = ''Name'', mapping_page = 1\<rparr> \<and>
   overlay ex_viewer
     [\<lparr>mapping_x = 100, mapping_y = 50, mapping_field = ''Name'', mapping_page = 1\<rparr>] =
     [(150, 75)]"
proof -
  have h: "0 < scale ex_viewer" "selectedField ex_viewer \<noteq> []"
    by (simp_all add: ex_viewer_def)
  have r: "Math_round (150 / scale ex_viewer) = 100" "Math_round (75 / scale ex_viewer) = 50"
    by (simp_all add: ex_viewer_def Math_round_def)
  from click_round_trip [OF h, of 150 75] obtain m where
    m: "handleCanvasClick ex_viewer 150 75 = Inr m"
       "mapping_x m = Math_round (150 / scale ex_viewer)"
       "mapping_y m = Math_round (75 / scale ex_viewer)"
       "overlay ex_viewer [m] = [(mapping_x m * scale ex_viewer, mapping_y m * scale ex_viewer)]"
    by blast
  have "m = \<lparr>mapping_x = 100, mapping_y = 50, mapping_field = ''Name'', mapping_page = 1\<rparr>"
    using m(1) by (simp add: handleCanvasClick_def ex_viewer_def r [unfolded ex_viewer_def, simplified] split: if_splits)
  with m h show ?thesis by (simp add: r ex_viewer_def)
qed

text \<open>The claim as stated asks for the original coordinates up to floating rounding.
  At the scale 1.5 of the component a click at (100, 100) is stored as (67, 67) and
  shown at (100.5, 100.5), half a pixel away in each axis.\<close>

theorem click_round_trip_counterexample:
  "0 < scale ex_viewer \<and>
   handleCanvasClick ex_viewer 100 100 =
     Inr \<lparr>mapping_x = 67, mapping_y = 67, mapping_field = ''Name'', mapping_page = 1\<rparr> \<and>
   overlay ex_viewer
     [\<lparr>mapping_x = 67, mapping_y = 67, mapping_field = ''Name'', mapping_page = 1\<rparr>] =
     [(201 / 2, 201 / 2)] \<and>
   \<bar>201 / 2 - (100 :: real)\<bar> = 1 / 2"
  by (simp add: handleCanvasClick_def overlay_def ex_viewer_def Math_round_def)

end
